theory Spec2Isabelle
  imports Main
begin

section \<open>Exceptions\<close>

text \<open>
  The Python exceptions the two modules raise or meet. Each carries what
  \<^verbatim>\<open>str(e)\<close> is built from: the message for \<^verbatim>\<open>ValueError\<close>,
  \<^verbatim>\<open>OSError\<close> and the generic \<^verbatim>\<open>Exception\<close>, the missing key for
  \<^verbatim>\<open>KeyError\<close>. All of them are instances of \<^verbatim>\<open>Exception\<close>, the class the
  \<^verbatim>\<open>except Exception as e\<close> clauses of the source catch.
\<close>

datatype exc =
    ValueError string
  | KeyError string
  | OSError string
  | Exception string

text \<open>\<^verbatim>\<open>str(e)\<close>, as interpolated by \<^verbatim>\<open>f"...{e}"\<close>; a \<^verbatim>\<open>KeyError\<close> prints the
  \<^verbatim>\<open>repr\<close> of its key. The keys looked up in the source are the literals
  \<^verbatim>\<open>settings\<close> and \<^verbatim>\<open>image_directory_name\<close>, whose \<^verbatim>\<open>repr\<close> is the key
  in single quotes; the quoting and escaping \<^verbatim>\<open>repr\<close> applies to a key that holds a
  quote or a backslash is not modelled.\<close>

fun str_exc :: "exc \<Rightarrow> string" where
  "str_exc (ValueError m) = m"
| "str_exc (KeyError k) = [CHR 0x27] @ k @ [CHR 0x27]"
| "str_exc (OSError m) = m"
| "str_exc (Exception m) = m"

fun is_ValueError :: "exc option \<Rightarrow> bool" where
  "is_ValueError (Some (ValueError m)) = True"
| "is_ValueError r = False"


section \<open>vector\_database.py\<close>

subsection \<open>Documents and the store\<close>

text \<open>
  A langchain \<^verbatim>\<open>Document(page_content=..., metadata={...})\<close>. The metadata dict is
  kept as the association list of its literal, in the order the source writes the keys;
  \<open>map_of\<close> is the lookup. A value is a string or an integer.
\<close>

datatype meta_value = MStr string | MInt int

record document =
  page_content :: string
  metadata :: "(string \<times> meta_value) list"

text \<open>
  The store is an untyped collaborator (\<^verbatim>\<open>vector_db: Any\<close>). Its state is a value of
  an arbitrary type \<open>'s\<close>; what its \<^verbatim>\<open>add_documents\<close> does is a parameter: given
  the documents and the state it returns the new state and, when it raises, the
  exception. \<open>add_calls\<close> records every invocation of \<^verbatim>\<open>add_documents\<close> with
  its argument, in order.
\<close>

record 's vector_db =
  db_state :: 's
  add_calls :: "document list list"

type_synonym 's add_documents_impl = "document list \<Rightarrow> 's \<Rightarrow> exc option \<times> 's"

definition add_documents ::
  "'s add_documents_impl \<Rightarrow> document list \<Rightarrow> 's vector_db \<Rightarrow> exc option \<times> 's vector_db" where
  "add_documents impl documents vdb =
     (case impl documents (db_state vdb) of
        (r, s') \<Rightarrow> (r, \<lparr>db_state = s', add_calls = add_calls vdb @ [documents]\<rparr>))"

subsection \<open>os.path.basename\<close>

text \<open>\<^verbatim>\<open>posixpath.basename\<close>: \<^verbatim>\<open>i = p.rfind('/') + 1; return p[i:]\<close>, the part
  after the last slash.\<close>

definition os_path_basename :: "string \<Rightarrow> string" where
  "os_path_basename p = rev (takeWhile (\<lambda>c. c \<noteq> CHR ''/'') (rev p))"

subsection \<open>The two insetters\<close>

text \<open>The loop \<^verbatim>\<open>documents = []; for text in ...: documents.append(Document(...))\<close>.\<close>

definition build_documents :: "(string \<Rightarrow> document) \<Rightarrow> string list \<Rightarrow> document list" where
  "build_documents mk texts = foldl (\<lambda>documents text. documents @ [mk text]) [] texts"

definition image_document :: "string \<Rightarrow> string \<Rightarrow> int \<Rightarrow> string \<Rightarrow> document" where
  "image_document image_path pdf_name page_no text =
     \<lparr>page_content = text,
      metadata = [(''Source'', MStr (os_path_basename pdf_name)),
                  (''PageNo'', MInt page_no),
                  (''ImagePath'', MStr image_path),
                  (''Type'', MStr ''Image'')]\<rparr>"

definition text_document :: "string \<Rightarrow> int \<Rightarrow> string \<Rightarrow> document" where
  "text_document pdf_name page_no text =
     \<lparr>page_content = text,
      metadata = [(''Source'', MStr (os_path_basename pdf_name)),
                  (''PageNo'', MInt page_no),
                  (''Type'', MStr ''Text'')]\<rparr>"

definition add_error_message :: string where
  "add_error_message = ''An error occurred while adding documents to the vector database: ''"

text \<open>
  Both functions return \<^verbatim>\<open>None\<close> or raise; the model returns the exception raised,
  if any, and the store as the call leaves it.
\<close>

definition image_db_insetter ::
  "'s add_documents_impl \<Rightarrow> 's vector_db \<Rightarrow> string list \<Rightarrow> string \<Rightarrow> string \<Rightarrow> int
     \<Rightarrow> exc option \<times> 's vector_db" where
  "image_db_insetter impl vector_db image_summaries_texts image_path pdf_name page_no =
     (if image_summaries_texts = [] then
        (Some (ValueError ''The image summaries list cannot be empty.''), vector_db)
      else if page_no < 1 then
        (Some (ValueError ''Page number must be a positive integer.''), vector_db)
      else
        let documents = build_documents (image_document image_path pdf_name page_no)
                          image_summaries_texts
        in case add_documents impl documents vector_db of
             (Some e, vdb') \<Rightarrow> (Some (Exception (add_error_message @ str_exc e)), vdb')
           | (None, vdb') \<Rightarrow> (None, vdb'))"

definition text_db_insetter ::
  "'s add_documents_impl \<Rightarrow> 's vector_db \<Rightarrow> string list \<Rightarrow> string \<Rightarrow> int
     \<Rightarrow> exc option \<times> 's vector_db" where
  "text_db_insetter impl vector_db texts pdf_name page_no =
     (if texts = [] then
        (Some (ValueError ''The texts list cannot be empty.''), vector_db)
      else if page_no < 1 then
        (Some (ValueError ''Page number must be a positive integer.''), vector_db)
      else
        let documents = build_documents (text_document pdf_name page_no) texts
        in case add_documents impl documents vector_db of
             (Some e, vdb') \<Rightarrow> (Some (Exception (add_error_message @ str_exc e)), vdb')
           | (None, vdb') \<Rightarrow> (None, vdb'))"

text \<open>The documents handed to \<^verbatim>\<open>add_documents\<close> during a call: the invocations
  recorded after those the store had already seen.\<close>

definition passed_documents :: "'s vector_db \<Rightarrow> 's vector_db \<Rightarrow> document list" where
  "passed_documents before after = concat (drop (length (add_calls before)) (add_calls after))"

text \<open>The data-model invariant of an indexed document.\<close>

definition has_key :: "document \<Rightarrow> string \<Rightarrow> bool" where
  "has_key d k = (map_of (metadata d) k \<noteq> None)"

definition page_no_ok :: "document \<Rightarrow> bool" where
  "page_no_ok d = (case map_of (metadata d) ''PageNo'' of Some (MInt n) \<Rightarrow> 1 \<le> n | _ \<Rightarrow> False)"

definition type_ok :: "document \<Rightarrow> bool" where
  "type_ok d = (map_of (metadata d) ''Type'' = Some (MStr ''Text'')
                \<or> map_of (metadata d) ''Type'' = Some (MStr ''Image''))"

definition image_path_ok :: "document \<Rightarrow> bool" where
  "image_path_ok d = (has_key d ''ImagePath'' = (map_of (metadata d) ''Type'' = Some (MStr ''Image'')))"


section \<open>file\_processer.py\<close>

subsection \<open>Strings and paths\<close>

text \<open>
  \<^verbatim>\<open>str.lower\<close> on the ASCII letters; every other character is left as it is. (No
  character outside ASCII lowers to one of the letters of \<^verbatim>\<open>.pdf\<close>, \<^verbatim>\<open>.txt\<close>
  or \<^verbatim>\<open>.docx\<close>, so the extension tests below see what Python sees.)
\<close>

definition lower_char :: "char \<Rightarrow> char" where
  "lower_char c =
     (case map_of (zip ''ABCDEFGHIJKLMNOPQRSTUVWXYZ'' ''abcdefghijklmnopqrstuvwxyz'') c of
        Some l \<Rightarrow> l
      | None \<Rightarrow> c)"

definition lower :: "string \<Rightarrow> string" where
  "lower s = map lower_char s"

definition endswith :: "string \<Rightarrow> string \<Rightarrow> bool" where
  "endswith s suffix =
     (length suffix \<le> length s \<and> drop (length s - length suffix) s = suffix)"

text \<open>\<^verbatim>\<open>posixpath.join(a, b)\<close>: an absolute \<open>b\<close> replaces \<open>a\<close>; otherwise the
  two are joined by one slash, unless \<open>a\<close> is empty or already ends in one.\<close>

definition os_path_join :: "string \<Rightarrow> string \<Rightarrow> string" where
  "os_path_join a b =
     (if take 1 b = ''/'' then b
      else if a = [] \<or> last a = CHR ''/'' then a @ b
      else a @ ''/'' @ b)"

subsection \<open>The file system\<close>

text \<open>
  The file system lists every entry but the root, as the components of its path together
  with its kind. A path string is resolved to components from the root, which is also the
  working directory: empty components and \<^verbatim>\<open>.\<close> are dropped, \<^verbatim>\<open>..\<close> steps up.
  The step up is taken on the path alone, as for a path whose directories before a
  \<^verbatim>\<open>..\<close> all exist; a path that names a missing directory before a \<^verbatim>\<open>..\<close> is
  outside the model. The empty path names nothing: the three operations below fail on it
  as Python's do.
\<close>

datatype node = File | Dir

type_synonym filesystem = "(string list \<times> node) list"

fun split_on :: "char \<Rightarrow> string \<Rightarrow> string list" where
  "split_on sep [] = [ [] ]"
| "split_on sep (c # cs) =
     (if c = sep then [] # split_on sep cs
      else (case split_on sep cs of
              w # ws \<Rightarrow> (c # w) # ws
            | [] \<Rightarrow> [ [c] ]))"

definition resolve :: "string \<Rightarrow> string list" where
  "resolve p =
     foldl (\<lambda>pre c. if c = [] then pre
                      else if c = ''.'' then pre
                      else if c = ''..'' then butlast pre
                      else pre @ [c])
       [] (split_on (CHR ''/'') p)"

definition lookup_path :: "filesystem \<Rightarrow> string list \<Rightarrow> node option" where
  "lookup_path files p = (if p = [] then Some Dir else map_of files p)"

text \<open>\<^verbatim>\<open>os.path.exists\<close>; \<^verbatim>\<open>os.path.exists('')\<close> is \<^verbatim>\<open>False\<close>.\<close>

definition os_path_exists :: "filesystem \<Rightarrow> string \<Rightarrow> bool" where
  "os_path_exists files p = (p \<noteq> [] \<and> lookup_path files (resolve p) \<noteq> None)"

text \<open>
  \<^verbatim>\<open>os.makedirs(p, exist_ok=True)\<close>: every missing directory on the way to \<open>p\<close> is
  created, an existing directory is kept, and a regular file in the way raises an
  \<^verbatim>\<open>OSError\<close> (\<^verbatim>\<open>FileExistsError\<close> at the end of the path,
  \<^verbatim>\<open>NotADirectoryError\<close> before it), leaving what was created so far. The messages
  are Python's without the path it appends to them.
\<close>

fun mkdirs :: "filesystem \<Rightarrow> string list \<Rightarrow> string list \<Rightarrow> exc option \<times> filesystem" where
  "mkdirs files pre [] = (None, files)"
| "mkdirs files pre (c # cs) =
     (case lookup_path files (pre @ [c]) of
        Some Dir \<Rightarrow> mkdirs files (pre @ [c]) cs
      | Some File \<Rightarrow>
          (Some (OSError (if cs = [] then ''[Errno 17] File exists''
                          else ''[Errno 20] Not a directory'')), files)
      | None \<Rightarrow> mkdirs (files @ [(pre @ [c], Dir)]) (pre @ [c]) cs)"

definition os_makedirs :: "filesystem \<Rightarrow> string \<Rightarrow> exc option \<times> filesystem" where
  "os_makedirs files p =
     (if p = [] then (Some (OSError ''[Errno 2] No such file or directory''), files)
      else mkdirs files [] (resolve p))"

text \<open>
  \<^verbatim>\<open>os.listdir\<close>: the names of the entries directly inside a directory. Python
  returns them in arbitrary order; the model returns them in the order the file system
  holds them, which is one of the orders Python may give. Only the runs on concrete folders
  below show an order of files; no general statement depends on it.
\<close>

definition os_listdir :: "filesystem \<Rightarrow> string \<Rightarrow> exc + string list" where
  "os_listdir files p =
     (if p = [] then Inl (OSError ''[Errno 2] No such file or directory'')
      else
        (case lookup_path files (resolve p) of
           None \<Rightarrow> Inl (OSError ''[Errno 2] No such file or directory'')
         | Some File \<Rightarrow> Inl (OSError ''[Errno 20] Not a directory'')
         | Some Dir \<Rightarrow>
             Inr (map (\<lambda>e. last (fst e))
                    (filter (\<lambda>e. fst e \<noteq> [] \<and> butlast (fst e) = resolve p) files))))"

subsection \<open>Configuration, output and the world\<close>

text \<open>
  The module-level \<^verbatim>\<open>config\<close> is a dict of sections, each a dict of settings; the
  settings read here are strings.
\<close>

type_synonym config = "string \<rightharpoonup> (string \<rightharpoonup> string)"

text \<open>What the function emits: a line through \<^verbatim>\<open>logger\<close> at some level, or a line
  printed.\<close>

datatype event = LogError string | LogWarning string | LogInfo string | Print string

text \<open>\<^verbatim>\<open>logger.info(m); print(m)\<close>, the pair the source writes around each file.\<close>

definition info :: "string \<Rightarrow> event list" where
  "info m = [LogInfo m, Print m]"

text \<open>
  What the function and the extractors act on: the file system and the vector store. The
  extractors \<^verbatim>\<open>process_pdf\<close>, \<^verbatim>\<open>process_text\<close> and
  \<^verbatim>\<open>process_word_text\<close> live in other modules and are parameters here: each takes
  the paths it is called with and the world, and returns the world as it leaves it
  together with the exception it raises, if any. The OpenAI client, the model name and the
  text chunker are only handed through to them and are part of these parameters.
\<close>

record 's world =
  fs :: filesystem
  vector_db :: "'s vector_db"

record 's extractors =
  process_pdf :: "string \<Rightarrow> string \<Rightarrow> 's world \<Rightarrow> exc option \<times> 's world"
  process_text :: "string \<Rightarrow> 's world \<Rightarrow> exc option \<times> 's world"
  process_word_text :: "string \<Rightarrow> 's world \<Rightarrow> exc option \<times> 's world"

subsection \<open>process\_all\_files\<close>

text \<open>
  \<^verbatim>\<open>config["settings"].get("image_directory_name", "extracted_images") or "extracted_images"\<close>
  (line 28): a missing section raises, a missing or empty setting gives the default.
\<close>

definition extracted_images_foldername :: "config \<Rightarrow> exc + string" where
  "extracted_images_foldername cfg =
     (case cfg ''settings'' of
        None \<Rightarrow> Inl (KeyError ''settings'')
      | Some settings \<Rightarrow>
          Inr (case settings ''image_directory_name'' of
                 None \<Rightarrow> ''extracted_images''
               | Some v \<Rightarrow> if v = [] then ''extracted_images'' else v))"

text \<open>One supported file: the line before the extractor, the extractor, and the line after
  it when the extractor returns.\<close>

definition run_extractor ::
  "string \<Rightarrow> string \<Rightarrow> ('s world \<Rightarrow> exc option \<times> 's world) \<Rightarrow> 's world
     \<Rightarrow> event list \<times> exc option \<times> 's world" where
  "run_extractor kind filename call w =
     (case call w of
        (Some e, w') \<Rightarrow> (info (''Processing '' @ kind @ '' file: '' @ filename), Some e, w')
      | (None, w') \<Rightarrow>
          (info (''Processing '' @ kind @ '' file: '' @ filename)
             @ info (''Processed '' @ kind @ '' file: '' @ filename), None, w'))"

text \<open>The tests of the \<^verbatim>\<open>if\<close>/\<^verbatim>\<open>elif\<close> chain (lines 43, 50 and 57), in
  their order, with the word the log lines use for the kind of file.\<close>

definition supported_kind :: "string \<Rightarrow> string option" where
  "supported_kind filename =
     (if endswith (lower filename) ''.pdf'' then Some ''PDF''
      else if endswith (lower filename) ''.txt'' then Some ''TXT''
      else if endswith (lower filename) ''.docx'' then Some ''Word''
      else None)"

text \<open>The body of the \<^verbatim>\<open>try\<close> (lines 43 to 67).\<close>

definition try_block ::
  "config \<Rightarrow> 's extractors \<Rightarrow> string \<Rightarrow> string \<Rightarrow> string \<Rightarrow> 's world
     \<Rightarrow> event list \<times> exc option \<times> 's world" where
  "try_block cfg ex file_path output_folder filename w =
     (if endswith (lower filename) ''.pdf'' then
        run_extractor ''PDF'' filename (process_pdf ex file_path output_folder) w
      else if endswith (lower filename) ''.txt'' then
        run_extractor ''TXT'' filename (process_text ex file_path) w
      else if endswith (lower filename) ''.docx'' then
        run_extractor ''Word'' filename (process_word_text ex file_path) w
      else
        (case cfg ''settings'' of
           None \<Rightarrow> ([], Some (KeyError ''settings''), w)
         | Some settings \<Rightarrow>
             (case settings ''image_directory_name'' of
                None \<Rightarrow> ([], Some (KeyError ''image_directory_name''), w)
              | Some name \<Rightarrow>
                  if name \<noteq> filename then
                    ([LogWarning (''Unsupported file type: '' @ filename),
                      Print (''Warning: Unsupported file type: '' @ filename)], None, w)
                  else ([], None, w))))"

text \<open>The body of the loop: the \<^verbatim>\<open>try\<close> with its \<^verbatim>\<open>except Exception as e\<close>
  (lines 40 to 71).\<close>

definition loop_body ::
  "config \<Rightarrow> 's extractors \<Rightarrow> string \<Rightarrow> string \<Rightarrow> string \<Rightarrow> 's world
     \<Rightarrow> event list \<times> exc option \<times> 's world" where
  "loop_body cfg ex data_folder output_folder filename w =
     (let file_path = os_path_join data_folder filename
      in case try_block cfg ex file_path output_folder filename w of
           (evs, Some e, w') \<Rightarrow>
             (evs @ [LogError (''Error processing file '' @ filename @ '': '' @ str_exc e),
                     Print (''Error processing file '' @ filename @ '': '' @ str_exc e)],
              None, w')
         | (evs, None, w') \<Rightarrow> (evs, None, w'))"

text \<open>A \<^verbatim>\<open>for\<close> loop: an exception that leaves the body ends the loop and leaves
  it too.\<close>

fun for_each ::
  "('a \<Rightarrow> 'w \<Rightarrow> event list \<times> exc option \<times> 'w) \<Rightarrow> 'a list \<Rightarrow> 'w
     \<Rightarrow> event list \<times> exc option \<times> 'w" where
  "for_each body [] w = ([], None, w)"
| "for_each body (x # xs) w =
     (case body x w of
        (evs, Some e, w') \<Rightarrow> (evs, Some e, w')
      | (evs, None, w') \<Rightarrow>
          (case for_each body xs w' of (evs', r, w'') \<Rightarrow> (evs @ evs', r, w'')))"

text \<open>The function returns \<^verbatim>\<open>None\<close>; the model returns what it emitted, the
  exception that leaves it, if any, and the world.\<close>

definition process_all_files ::
  "config \<Rightarrow> 's extractors \<Rightarrow> string \<Rightarrow> 's world \<Rightarrow> event list \<times> exc option \<times> 's world" where
  "process_all_files cfg ex data_folder w =
     (if \<not> os_path_exists (fs w) data_folder then
        ([LogError (''The specified data folder does not exist: '' @ data_folder),
          Print (''Error: The specified data folder does not exist: '' @ data_folder)],
         None, w)
      else
        (case extracted_images_foldername cfg of
           Inl e \<Rightarrow> ([], Some e, w)
         | Inr name \<Rightarrow>
             let output_folder = os_path_join data_folder name
             in (case os_makedirs (fs w) output_folder of
                   (Some e, files') \<Rightarrow> ([], Some e, w\<lparr>fs := files'\<rparr>)
                 | (None, files') \<Rightarrow>
                     (case os_listdir files' data_folder of
                        Inl e \<Rightarrow> ([], Some e, w\<lparr>fs := files'\<rparr>)
                      | Inr files \<Rightarrow>
                          if files = [] then
                            ([LogWarning ''No files found in the specified data folder.'',
                              Print ''Warning: No files found in the specified data folder.''],
                             None, w\<lparr>fs := files'\<rparr>)
                          else
                            (case for_each (loop_body cfg ex data_folder output_folder) files
                                    (w\<lparr>fs := files'\<rparr>) of
                               (evs, Some e, w') \<Rightarrow> (evs, Some e, w')
                             | (evs, None, w') \<Rightarrow>
                                 (evs @ info ''All files have been processed.'', None, w'))))))"


section \<open>Collaborators for concrete runs\<close>

text \<open>Two stores used to run the insetters on concrete inputs: one that keeps the
  documents it is given in a list, one whose \<^verbatim>\<open>add_documents\<close> always raises.\<close>

definition list_store :: "document list add_documents_impl" where
  "list_store documents s = (None, s @ documents)"

definition failing_store :: "exc \<Rightarrow> document list add_documents_impl" where
  "failing_store e documents s = (Some e, s)"

definition empty_db :: "document list vector_db" where
  "empty_db = \<lparr>db_state = [], add_calls = []\<rparr>"

text \<open>A configuration that names the image directory, and one whose settings do not.\<close>

definition sample_config :: config where
  "sample_config = [''settings'' \<mapsto> [''image_directory_name'' \<mapsto> ''extracted_images'']]"

definition bare_config :: config where
  "bare_config = [''settings'' \<mapsto> Map.empty]"

text \<open>Extractors for concrete runs: one indexes a single chunk for the file through
  \<open>text_db_insetter\<close>, on page 1; one fails to open its file.\<close>

definition index_one_chunk :: "string \<Rightarrow> document list world \<Rightarrow> exc option \<times> document list world" where
  "index_one_chunk file_path w =
     (case text_db_insetter list_store (vector_db w) [''text of '' @ file_path] file_path 1 of
        (r, v) \<Rightarrow> (r, w\<lparr>vector_db := v\<rparr>))"

definition cannot_open :: "string \<Rightarrow> string \<Rightarrow> document list world \<Rightarrow> exc option \<times> document list world" where
  "cannot_open file_path output_folder w = (Some (Exception (''cannot open '' @ file_path)), w)"

definition sample_extractors :: "document list extractors" where
  "sample_extractors =
     \<lparr>process_pdf = cannot_open, process_text = index_one_chunk,
      process_word_text = index_one_chunk\<rparr>"

definition blank_name_config :: config where
  "blank_name_config = [''settings'' \<mapsto> [''image_directory_name'' \<mapsto> []]]"

text \<open>Input folders: an empty one, one holding a single file of an unsupported type, and
  one with a file of each kind.\<close>

definition empty_folder :: "document list world" where
  "empty_folder = \<lparr>fs = [([''data''], Dir)], vector_db = empty_db\<rparr>"

definition odd_file_folder :: "document list world" where
  "odd_file_folder =
     \<lparr>fs = [([''data''], Dir), ([''data'', ''notes.xyz''], File)], vector_db = empty_db\<rparr>"

definition mixed_folder :: "document list world" where
  "mixed_folder =
     \<lparr>fs = [([''data''], Dir), ([''data'', ''a.PDF''], File), ([''data'', ''b.txt''], File),
            ([''data'', ''c.Docx''], File), ([''data'', ''d.xyz''], File)],
      vector_db = empty_db\<rparr>"


section \<open>Properties of the insetters\<close>

lemma foldl_append_map:
  "foldl (\<lambda>documents text. documents @ [mk text]) acc texts = acc @ map mk texts"
  by (induction texts arbitrary: acc) simp_all

lemma build_documents_map: "build_documents mk texts = map mk texts"
  by (simp add: build_documents_def foldl_append_map)

lemma add_documents_calls:
  "add_calls (snd (add_documents impl documents vdb)) = add_calls vdb @ [documents]"
  by (simp add: add_documents_def split: prod.splits)

lemma add_documents_fst:
  "fst (add_documents impl documents vdb) = fst (impl documents (db_state vdb))"
  by (simp add: add_documents_def split: prod.splits)

lemma text_db_insetter_invalid:
  "texts = [] \<or> page_no < 1 \<Longrightarrow>
   \<exists>m. text_db_insetter impl vdb texts pdf_name page_no = (Some (ValueError m), vdb)"
  by (auto simp: text_db_insetter_def)

lemma image_db_insetter_invalid:
  "summaries = [] \<or> page_no < 1 \<Longrightarrow>
   \<exists>m. image_db_insetter impl vdb summaries image_path pdf_name page_no
        = (Some (ValueError m), vdb)"
  by (auto simp: image_db_insetter_def)

lemma text_db_insetter_valid:
  assumes "texts \<noteq> []" and "1 \<le> page_no"
    and "impl (map (text_document pdf_name page_no) texts) (db_state vdb) = (r, s')"
  shows "text_db_insetter impl vdb texts pdf_name page_no =
           (map_option (\<lambda>e. Exception (add_error_message @ str_exc e)) r,
            \<lparr>db_state = s',
             add_calls = add_calls vdb @ [map (text_document pdf_name page_no) texts]\<rparr>)"
  using assms
  by (cases r) (simp_all add: text_db_insetter_def build_documents_map add_documents_def)

lemma image_db_insetter_valid:
  assumes "summaries \<noteq> []" and "1 \<le> page_no"
    and "impl (map (image_document image_path pdf_name page_no) summaries) (db_state vdb)
           = (r, s')"
  shows "image_db_insetter impl vdb summaries image_path pdf_name page_no =
           (map_option (\<lambda>e. Exception (add_error_message @ str_exc e)) r,
            \<lparr>db_state = s',
             add_calls = add_calls vdb
                           @ [map (image_document image_path pdf_name page_no) summaries]\<rparr>)"
  using assms
  by (cases r) (simp_all add: image_db_insetter_def build_documents_map add_documents_def)

lemma text_db_insetter_valid_fst:
  assumes "texts \<noteq> []" and "1 \<le> page_no"
  shows "fst (text_db_insetter impl vdb texts pdf_name page_no) =
           map_option (\<lambda>e. Exception (add_error_message @ str_exc e))
             (fst (impl (map (text_document pdf_name page_no) texts) (db_state vdb)))"
proof (cases "impl (map (text_document pdf_name page_no) texts) (db_state vdb)")
  case (Pair r s')
  from text_db_insetter_valid [where impl = impl and vdb = vdb and r = r and s' = s', OF assms] Pair
  show ?thesis by simp
qed

lemma image_db_insetter_valid_fst:
  assumes "summaries \<noteq> []" and "1 \<le> page_no"
  shows "fst (image_db_insetter impl vdb summaries image_path pdf_name page_no) =
           map_option (\<lambda>e. Exception (add_error_message @ str_exc e))
             (fst (impl (map (image_document image_path pdf_name page_no) summaries)
                     (db_state vdb)))"
proof (cases "impl (map (image_document image_path pdf_name page_no) summaries) (db_state vdb)")
  case (Pair r s')
  from image_db_insetter_valid [where impl = impl and vdb = vdb and r = r and s' = s', OF assms] Pair
  show ?thesis by simp
qed

lemma text_db_insetter_valid_calls:
  assumes "texts \<noteq> []" and "1 \<le> page_no"
  shows "add_calls (snd (text_db_insetter impl vdb texts pdf_name page_no)) =
           add_calls vdb @ [map (text_document pdf_name page_no) texts]"
proof (cases "impl (map (text_document pdf_name page_no) texts) (db_state vdb)")
  case (Pair r s')
  from text_db_insetter_valid [where impl = impl and vdb = vdb and r = r and s' = s', OF assms] Pair
  show ?thesis by simp
qed

lemma image_db_insetter_valid_calls:
  assumes "summaries \<noteq> []" and "1 \<le> page_no"
  shows "add_calls (snd (image_db_insetter impl vdb summaries image_path pdf_name page_no)) =
           add_calls vdb @ [map (image_document image_path pdf_name page_no) summaries]"
proof (cases "impl (map (image_document image_path pdf_name page_no) summaries) (db_state vdb)")
  case (Pair r s')
  from image_db_insetter_valid [where impl = impl and vdb = vdb and r = r and s' = s', OF assms] Pair
  show ?thesis by simp
qed

lemma text_db_insetter_passed:
  "passed_documents vdb (snd (text_db_insetter impl vdb texts pdf_name page_no)) =
     (if texts = [] \<or> page_no < 1 then [] else map (text_document pdf_name page_no) texts)"
proof (cases "texts = [] \<or> page_no < 1")
  case True
  then show ?thesis
    using text_db_insetter_invalid [OF True, of impl vdb pdf_name]
    by (auto simp: passed_documents_def)
next
  case False
  then show ?thesis
    using text_db_insetter_valid_calls [of texts page_no impl vdb pdf_name]
    by (simp add: passed_documents_def)
qed

lemma image_db_insetter_passed:
  "passed_documents vdb (snd (image_db_insetter impl vdb summaries image_path pdf_name page_no)) =
     (if summaries = [] \<or> page_no < 1 then []
      else map (image_document image_path pdf_name page_no) summaries)"
proof (cases "summaries = [] \<or> page_no < 1")
  case True
  then show ?thesis
    using image_db_insetter_invalid [OF True, of impl vdb image_path pdf_name]
    by (auto simp: passed_documents_def)
next
  case False
  then show ?thesis
    using image_db_insetter_valid_calls [of summaries page_no impl vdb image_path pdf_name]
    by (simp add: passed_documents_def)
qed

lemma os_path_basename_no_slash: "CHR ''/'' \<notin> set (os_path_basename p)"
proof -
  have "\<forall>c \<in> set (takeWhile (\<lambda>c. c \<noteq> CHR ''/'') (rev p)). c \<noteq> CHR ''/''"
    by (metis (mono_tags, lifting) set_takeWhileD)
  then show ?thesis by (auto simp: os_path_basename_def)
qed

lemma os_path_basename_split:
  "\<exists>d. p = d @ os_path_basename p \<and> (d = [] \<or> last d = CHR ''/'')"
proof -
  let ?P = "\<lambda>c. c \<noteq> CHR ''/''"
  let ?d = "rev (dropWhile ?P (rev p))"
  have "p = rev (takeWhile ?P (rev p) @ dropWhile ?P (rev p))" by simp
  then have split: "p = ?d @ os_path_basename p"
    unfolding os_path_basename_def rev_append .
  have "?d = [] \<or> last ?d = CHR ''/''"
  proof (cases "dropWhile ?P (rev p)")
    case Nil
    then show ?thesis by simp
  next
    case (Cons c cs)
    then have "dropWhile ?P (rev p) \<noteq> []" by simp
    then have "\<not> ?P (hd (dropWhile ?P (rev p)))" by (rule hd_dropWhile)
    with Cons show ?thesis by simp
  qed
  with split show ?thesis by blast
qed

lemma not_ValueError_wrapped:
  "\<not> is_ValueError (map_option (\<lambda>e. Exception (add_error_message @ str_exc e)) r)"
  by (cases r) simp_all

lemma text_db_insetter_ValueError_iff:
  "is_ValueError (fst (text_db_insetter impl vdb texts pdf_name page_no))
     = (texts = [] \<or> page_no < 1)"
proof (cases "texts = [] \<or> page_no < 1")
  case True
  from text_db_insetter_invalid [OF True, of impl vdb pdf_name] True
  show ?thesis by auto
next
  case False
  then have "texts \<noteq> []" and "1 \<le> page_no" by auto
  from text_db_insetter_valid_fst [OF this, of impl vdb pdf_name] False
  show ?thesis by (simp add: not_ValueError_wrapped)
qed

lemma image_db_insetter_ValueError_iff:
  "is_ValueError (fst (image_db_insetter impl vdb summaries image_path pdf_name page_no))
     = (summaries = [] \<or> page_no < 1)"
proof (cases "summaries = [] \<or> page_no < 1")
  case True
  from image_db_insetter_invalid [OF True, of impl vdb image_path pdf_name] True
  show ?thesis by auto
next
  case False
  then have "summaries \<noteq> []" and "1 \<le> page_no" by auto
  from image_db_insetter_valid_fst [OF this, of impl vdb image_path pdf_name] False
  show ?thesis by (simp add: not_ValueError_wrapped)
qed

lemma text_document_fields:
  "page_content (text_document pdf_name page_no text) = text"
  "map_of (metadata (text_document pdf_name page_no text)) ''Source''
     = Some (MStr (os_path_basename pdf_name))"
  "map_of (metadata (text_document pdf_name page_no text)) ''PageNo'' = Some (MInt page_no)"
  "map_of (metadata (text_document pdf_name page_no text)) ''Type'' = Some (MStr ''Text'')"
  "map_of (metadata (text_document pdf_name page_no text)) ''ImagePath'' = None"
  by (simp_all add: text_document_def)

lemma image_document_fields:
  "page_content (image_document image_path pdf_name page_no text) = text"
  "map_of (metadata (image_document image_path pdf_name page_no text)) ''Source''
     = Some (MStr (os_path_basename pdf_name))"
  "map_of (metadata (image_document image_path pdf_name page_no text)) ''PageNo''
     = Some (MInt page_no)"
  "map_of (metadata (image_document image_path pdf_name page_no text)) ''Type''
     = Some (MStr ''Image'')"
  "map_of (metadata (image_document image_path pdf_name page_no text)) ''ImagePath''
     = Some (MStr image_path)"
  by (simp_all add: image_document_def)

lemma text_document_invariant:
  "1 \<le> page_no \<Longrightarrow> page_no_ok (text_document pdf_name page_no text)"
  "type_ok (text_document pdf_name page_no text)"
  "image_path_ok (text_document pdf_name page_no text)"
  by (simp_all add: page_no_ok_def type_ok_def image_path_ok_def has_key_def
        text_document_fields)

lemma image_document_invariant:
  "1 \<le> page_no \<Longrightarrow> page_no_ok (image_document image_path pdf_name page_no text)"
  "type_ok (image_document image_path pdf_name page_no text)"
  "image_path_ok (image_document image_path pdf_name page_no text)"
  by (simp_all add: page_no_ok_def type_ok_def image_path_ok_def has_key_def
        image_document_fields)


subsection \<open>Validation\<close>

text \<open>
  C2. For every store, source name and page number, \<open>text_db_insetter\<close> and
  \<open>image_db_insetter\<close> raise a \<open>ValueError\<close> whenever the content list is empty or
  the page number is below 1, and do so before anything else: the store comes back as it
  was given. With a non-empty list and a page number of at least 1 the exception they
  raise, if any, is not a \<open>ValueError\<close>.
\<close>

theorem insetters_validate_inputs:
  "(texts = [] \<or> page_no < 1 \<longrightarrow>
      (\<exists>m. text_db_insetter impl vdb texts pdf_name page_no = (Some (ValueError m), vdb)))
   \<and> (texts \<noteq> [] \<and> 1 \<le> page_no \<longrightarrow>
      \<not> is_ValueError (fst (text_db_insetter impl vdb texts pdf_name page_no)))
   \<and> (summaries = [] \<or> page_no < 1 \<longrightarrow>
      (\<exists>m. image_db_insetter impl vdb summaries image_path pdf_name page_no
             = (Some (ValueError m), vdb)))
   \<and> (summaries \<noteq> [] \<and> 1 \<le> page_no \<longrightarrow>
      \<not> is_ValueError (fst (image_db_insetter impl vdb summaries image_path pdf_name page_no)))"
proof (intro conjI impI)
  assume "texts = [] \<or> page_no < 1"
  then show "\<exists>m. text_db_insetter impl vdb texts pdf_name page_no = (Some (ValueError m), vdb)"
    by (rule text_db_insetter_invalid)
next
  assume "texts \<noteq> [] \<and> 1 \<le> page_no"
  then show "\<not> is_ValueError (fst (text_db_insetter impl vdb texts pdf_name page_no))"
    by (simp add: text_db_insetter_ValueError_iff)
next
  assume "summaries = [] \<or> page_no < 1"
  then show "\<exists>m. image_db_insetter impl vdb summaries image_path pdf_name page_no
                 = (Some (ValueError m), vdb)"
    by (rule image_db_insetter_invalid)
next
  assume "summaries \<noteq> [] \<and> 1 \<le> page_no"
  then show "\<not> is_ValueError
                 (fst (image_db_insetter impl vdb summaries image_path pdf_name page_no))"
    by (simp add: image_db_insetter_ValueError_iff)
qed

theorem insetters_validate_inputs_witness:
  "text_db_insetter list_store empty_db [] ''r.pdf'' 1
     = (Some (ValueError ''The texts list cannot be empty.''), empty_db)
   \<and> image_db_insetter list_store empty_db [''a chart''] ''out/r_1_0.png'' ''r.pdf'' 0
     = (Some (ValueError ''Page number must be a positive integer.''), empty_db)
   \<and> \<not> is_ValueError (fst (text_db_insetter list_store empty_db [''hello''] ''r.pdf'' 1))
   \<and> \<not> is_ValueError
         (fst (image_db_insetter list_store empty_db [''a chart''] ''out/r_1_0.png'' ''r.pdf'' 1))"
  using insetters_validate_inputs
          [where texts = "[]" and page_no = 1 and impl = list_store and vdb = empty_db
             and pdf_name = "''r.pdf''" and summaries = "[''a chart'']"
             and image_path = "''out/r_1_0.png''"]
        insetters_validate_inputs
          [where texts = "[''hello'']" and page_no = 0 and impl = list_store and vdb = empty_db
             and pdf_name = "''r.pdf''" and summaries = "[''a chart'']"
             and image_path = "''out/r_1_0.png''"]
        insetters_validate_inputs
          [where texts = "[''hello'']" and page_no = 1 and impl = list_store and vdb = empty_db
             and pdf_name = "''r.pdf''" and summaries = "[''a chart'']"
             and image_path = "''out/r_1_0.png''"]
  by (simp add: text_db_insetter_def image_db_insetter_def)


text \<open>
  C10. In both insetters validation comes before any interaction with the store: whenever
  a call raises the \<open>ValueError\<close>, \<^verbatim>\<open>add_documents\<close> has not been invoked (the record
  of invocations is as before, no document was passed) and the store's state is unchanged.
\<close>

theorem validation_error_leaves_store_untouched:
  "(is_ValueError (fst (text_db_insetter impl vdb texts pdf_name page_no)) \<longrightarrow>
      add_calls (snd (text_db_insetter impl vdb texts pdf_name page_no)) = add_calls vdb
      \<and> db_state (snd (text_db_insetter impl vdb texts pdf_name page_no)) = db_state vdb
      \<and> passed_documents vdb (snd (text_db_insetter impl vdb texts pdf_name page_no)) = [])
   \<and> (is_ValueError (fst (image_db_insetter impl vdb summaries image_path pdf_name page_no)) \<longrightarrow>
      add_calls (snd (image_db_insetter impl vdb summaries image_path pdf_name page_no))
        = add_calls vdb
      \<and> db_state (snd (image_db_insetter impl vdb summaries image_path pdf_name page_no))
        = db_state vdb
      \<and> passed_documents vdb
          (snd (image_db_insetter impl vdb summaries image_path pdf_name page_no)) = [])"
proof (intro conjI impI)
  assume "is_ValueError (fst (text_db_insetter impl vdb texts pdf_name page_no))"
  then have bad: "texts = [] \<or> page_no < 1"
    by (simp add: text_db_insetter_ValueError_iff)
  from text_db_insetter_invalid [OF bad, of impl vdb pdf_name]
  have same: "snd (text_db_insetter impl vdb texts pdf_name page_no) = vdb" by auto
  show "add_calls (snd (text_db_insetter impl vdb texts pdf_name page_no)) = add_calls vdb"
    and "db_state (snd (text_db_insetter impl vdb texts pdf_name page_no)) = db_state vdb"
    and "passed_documents vdb (snd (text_db_insetter impl vdb texts pdf_name page_no)) = []"
    by (simp_all add: same passed_documents_def)
next
  assume "is_ValueError (fst (image_db_insetter impl vdb summaries image_path pdf_name page_no))"
  then have bad: "summaries = [] \<or> page_no < 1"
    by (simp add: image_db_insetter_ValueError_iff)
  from image_db_insetter_invalid [OF bad, of impl vdb image_path pdf_name]
  have same: "snd (image_db_insetter impl vdb summaries image_path pdf_name page_no) = vdb"
    by auto
  show "add_calls (snd (image_db_insetter impl vdb summaries image_path pdf_name page_no))
          = add_calls vdb"
    and "db_state (snd (image_db_insetter impl vdb summaries image_path pdf_name page_no))
          = db_state vdb"
    and "passed_documents vdb
           (snd (image_db_insetter impl vdb summaries image_path pdf_name page_no)) = []"
    by (simp_all add: same passed_documents_def)
qed

theorem validation_error_leaves_store_untouched_witness:
  "is_ValueError (fst (text_db_insetter list_store empty_db [] ''r.pdf'' 0))
   \<and> add_calls (snd (text_db_insetter list_store empty_db [] ''r.pdf'' 0)) = []
   \<and> db_state (snd (text_db_insetter list_store empty_db [] ''r.pdf'' 0)) = []
   \<and> is_ValueError
       (fst (image_db_insetter list_store empty_db [''a chart''] ''out/r_1_0.png'' ''r.pdf'' 0))
   \<and> add_calls
       (snd (image_db_insetter list_store empty_db [''a chart''] ''out/r_1_0.png'' ''r.pdf'' 0))
       = []
   \<and> db_state
       (snd (image_db_insetter list_store empty_db [''a chart''] ''out/r_1_0.png'' ''r.pdf'' 0))
       = []"
proof -
  have t: "is_ValueError (fst (text_db_insetter list_store empty_db [] ''r.pdf'' 0))"
    by (simp add: text_db_insetter_def)
  have i: "is_ValueError
       (fst (image_db_insetter list_store empty_db [''a chart''] ''out/r_1_0.png'' ''r.pdf'' 0))"
    by (simp add: image_db_insetter_def)
  from t i validation_error_leaves_store_untouched
      [where impl = list_store and vdb = empty_db and texts = "[]" and pdf_name = "''r.pdf''"
         and page_no = 0 and summaries = "[''a chart'']" and image_path = "''out/r_1_0.png''"]
  show ?thesis by (simp add: empty_db_def)
qed


subsection \<open>The documents built\<close>

lemma text_db_insetter_documents:
  assumes "texts \<noteq> []" and "1 \<le> page_no"
  shows "\<exists>docs. add_calls (snd (text_db_insetter impl vdb texts pdf_name page_no))
                  = add_calls vdb @ [docs]
           \<and> length docs = length texts
           \<and> (\<forall>i < length texts.
                 page_content (docs ! i) = texts ! i
               \<and> map_of (metadata (docs ! i)) ''Source'' = Some (MStr (os_path_basename pdf_name))
               \<and> map_of (metadata (docs ! i)) ''PageNo'' = Some (MInt page_no)
               \<and> map_of (metadata (docs ! i)) ''Type'' = Some (MStr ''Text'')
               \<and> map_of (metadata (docs ! i)) ''ImagePath'' = None)"
proof (intro exI conjI)
  show "add_calls (snd (text_db_insetter impl vdb texts pdf_name page_no))
          = add_calls vdb @ [map (text_document pdf_name page_no) texts]"
    using assms by (rule text_db_insetter_valid_calls)
qed (simp_all add: text_document_fields)

lemma image_db_insetter_documents:
  assumes "texts \<noteq> []" and "1 \<le> page_no"
  shows "\<exists>docs. add_calls (snd (image_db_insetter impl vdb texts image_path pdf_name page_no))
                  = add_calls vdb @ [docs]
           \<and> length docs = length texts
           \<and> (\<forall>i < length texts.
                 page_content (docs ! i) = texts ! i
               \<and> map_of (metadata (docs ! i)) ''Source'' = Some (MStr (os_path_basename pdf_name))
               \<and> map_of (metadata (docs ! i)) ''PageNo'' = Some (MInt page_no)
               \<and> map_of (metadata (docs ! i)) ''Type'' = Some (MStr ''Image'')
               \<and> map_of (metadata (docs ! i)) ''ImagePath'' = Some (MStr image_path))"
proof (intro exI conjI)
  show "add_calls (snd (image_db_insetter impl vdb texts image_path pdf_name page_no))
          = add_calls vdb @ [map (image_document image_path pdf_name page_no) texts]"
    using assms by (rule image_db_insetter_valid_calls)
qed (simp_all add: image_document_fields)

text \<open>
  C3. For every non-empty input list and page number of at least 1, each insetter makes one
  call of \<^verbatim>\<open>add_documents\<close> with exactly one document per input string, in input
  order: the content is that string, \<open>Source\<close> is the base name of the source name (the
  source name without everything up to its last slash), \<open>PageNo\<close> is the page number,
  \<open>Type\<close> is \<open>Text\<close> for \<open>text_db_insetter\<close> and \<open>Image\<close> for
  \<open>image_db_insetter\<close>, and \<open>ImagePath\<close>, equal to the given image path, is a key of
  the metadata only for \<open>image_db_insetter\<close>.
\<close>

theorem insetters_build_one_document_per_string:
  assumes "texts \<noteq> []" and "1 \<le> page_no"
  shows "(\<exists>docs. add_calls (snd (text_db_insetter impl vdb texts pdf_name page_no))
                  = add_calls vdb @ [docs]
           \<and> length docs = length texts
           \<and> (\<forall>i < length texts.
                 page_content (docs ! i) = texts ! i
               \<and> map_of (metadata (docs ! i)) ''Source'' = Some (MStr (os_path_basename pdf_name))
               \<and> map_of (metadata (docs ! i)) ''PageNo'' = Some (MInt page_no)
               \<and> map_of (metadata (docs ! i)) ''Type'' = Some (MStr ''Text'')
               \<and> map_of (metadata (docs ! i)) ''ImagePath'' = None))
       \<and> (\<exists>docs. add_calls (snd (image_db_insetter impl vdb texts image_path pdf_name page_no))
                  = add_calls vdb @ [docs]
           \<and> length docs = length texts
           \<and> (\<forall>i < length texts.
                 page_content (docs ! i) = texts ! i
               \<and> map_of (metadata (docs ! i)) ''Source'' = Some (MStr (os_path_basename pdf_name))
               \<and> map_of (metadata (docs ! i)) ''PageNo'' = Some (MInt page_no)
               \<and> map_of (metadata (docs ! i)) ''Type'' = Some (MStr ''Image'')
               \<and> map_of (metadata (docs ! i)) ''ImagePath'' = Some (MStr image_path)))
       \<and> CHR ''/'' \<notin> set (os_path_basename pdf_name)
       \<and> (\<exists>d. pdf_name = d @ os_path_basename pdf_name \<and> (d = [] \<or> last d = CHR ''/''))"
  using text_db_insetter_documents [OF assms, of impl vdb pdf_name]
        image_db_insetter_documents [OF assms, of impl vdb image_path pdf_name]
        os_path_basename_no_slash [of pdf_name] os_path_basename_split [of pdf_name]
  by (intro conjI)

theorem insetters_build_one_document_per_string_witness:
  "add_calls (snd (text_db_insetter list_store empty_db [''alpha'', ''beta''] ''data/r.pdf'' 2))
     = [ [\<lparr>page_content = ''alpha'',
          metadata = [(''Source'', MStr ''r.pdf''), (''PageNo'', MInt 2),
                      (''Type'', MStr ''Text'')]\<rparr>,
         \<lparr>page_content = ''beta'',
          metadata = [(''Source'', MStr ''r.pdf''), (''PageNo'', MInt 2),
                      (''Type'', MStr ''Text'')]\<rparr>]]
   \<and> add_calls (snd (image_db_insetter list_store empty_db [''alpha'', ''beta'']
                       ''out/r_2_0.png'' ''data/r.pdf'' 2))
     = [ [\<lparr>page_content = ''alpha'',
          metadata = [(''Source'', MStr ''r.pdf''), (''PageNo'', MInt 2),
                      (''ImagePath'', MStr ''out/r_2_0.png''), (''Type'', MStr ''Image'')]\<rparr>,
         \<lparr>page_content = ''beta'',
          metadata = [(''Source'', MStr ''r.pdf''), (''PageNo'', MInt 2),
                      (''ImagePath'', MStr ''out/r_2_0.png''), (''Type'', MStr ''Image'')]\<rparr>]]"
proof -
  have ne: "[''alpha'', ''beta''] \<noteq> ([] :: string list)" and pg: "(1::int) \<le> 2" by simp_all
  have base: "os_path_basename ''data/r.pdf'' = ''r.pdf''"
    by (simp add: os_path_basename_def)
  from insetters_build_one_document_per_string
         [OF ne pg, of list_store empty_db "''data/r.pdf''" "''out/r_2_0.png''"]
  show ?thesis
    by (simp add: text_db_insetter_def image_db_insetter_def build_documents_def
          add_documents_def list_store_def empty_db_def text_document_def image_document_def
          base Let_def)
qed


subsection \<open>The data-model invariant\<close>

text \<open>
  C4, as the spec states it, asks that no document reaching the store has empty content.
  The insetters check the list and the page number only: an empty string in the list
  becomes a document with empty content, handed to \<^verbatim>\<open>add_documents\<close>.
\<close>

theorem insetter_passes_empty_content:
  "passed_documents empty_db (snd (text_db_insetter list_store empty_db [ [] ] ''report.pdf'' 1))
     = [\<lparr>page_content = [],
         metadata = [(''Source'', MStr ''report.pdf''), (''PageNo'', MInt 1),
                     (''Type'', MStr ''Text'')]\<rparr>]
   \<and> fst (text_db_insetter list_store empty_db [ [] ] ''report.pdf'' 1) = None"
  by (simp add: text_db_insetter_def build_documents_def add_documents_def list_store_def
        empty_db_def text_document_def os_path_basename_def passed_documents_def Let_def)

text \<open>
  C4, amended. Every document passed to \<^verbatim>\<open>add_documents\<close> by either insetter has
  \<open>PageNo\<close> at least 1, \<open>Type\<close> exactly \<open>Text\<close> or \<open>Image\<close>, the key
  \<open>ImagePath\<close> if and only if its \<open>Type\<close> is \<open>Image\<close>, and for content one of
  the input strings: the content is non-empty whenever no input string is empty.
\<close>

theorem insetter_documents_satisfy_invariant:
  "(\<forall>d \<in> set (passed_documents vdb (snd (text_db_insetter impl vdb texts pdf_name page_no))).
      page_no_ok d \<and> type_ok d \<and> image_path_ok d \<and> page_content d \<in> set texts
      \<and> ([] \<notin> set texts \<longrightarrow> page_content d \<noteq> []))
   \<and> (\<forall>d \<in> set (passed_documents vdb
                    (snd (image_db_insetter impl vdb summaries image_path pdf_name page_no))).
      page_no_ok d \<and> type_ok d \<and> image_path_ok d \<and> page_content d \<in> set summaries
      \<and> ([] \<notin> set summaries \<longrightarrow> page_content d \<noteq> []))"
proof (rule conjI; rule ballI)
  fix d
  assume "d \<in> set (passed_documents vdb (snd (text_db_insetter impl vdb texts pdf_name page_no)))"
  then have ok: "1 \<le> page_no" and "d \<in> text_document pdf_name page_no ` set texts"
    by (auto simp: text_db_insetter_passed split: if_splits)
  then obtain t where t: "t \<in> set texts" and d: "d = text_document pdf_name page_no t"
    by blast
  show "page_no_ok d \<and> type_ok d \<and> image_path_ok d \<and> page_content d \<in> set texts
        \<and> ([] \<notin> set texts \<longrightarrow> page_content d \<noteq> [])"
    using t ok by (auto simp: d text_document_invariant text_document_fields)
next
  fix d
  assume "d \<in> set (passed_documents vdb
                     (snd (image_db_insetter impl vdb summaries image_path pdf_name page_no)))"
  then have ok: "1 \<le> page_no"
    and "d \<in> image_document image_path pdf_name page_no ` set summaries"
    by (auto simp: image_db_insetter_passed split: if_splits)
  then obtain t where t: "t \<in> set summaries"
    and d: "d = image_document image_path pdf_name page_no t"
    by blast
  show "page_no_ok d \<and> type_ok d \<and> image_path_ok d \<and> page_content d \<in> set summaries
        \<and> ([] \<notin> set summaries \<longrightarrow> page_content d \<noteq> [])"
    using t ok by (auto simp: d image_document_invariant image_document_fields)
qed

theorem insetter_documents_satisfy_invariant_witness:
  "length (passed_documents empty_db
             (snd (text_db_insetter list_store empty_db [''alpha'', ''beta''] ''data/r.pdf'' 2)))
     = 2
   \<and> list_all (\<lambda>d. page_no_ok d \<and> type_ok d \<and> image_path_ok d \<and> page_content d \<noteq> [])
       (passed_documents empty_db
          (snd (text_db_insetter list_store empty_db [''alpha'', ''beta''] ''data/r.pdf'' 2)))
   \<and> length (passed_documents empty_db
               (snd (image_db_insetter list_store empty_db [''a chart''] ''out/r_2_0.png''
                       ''data/r.pdf'' 2)))
     = 1
   \<and> list_all (\<lambda>d. page_no_ok d \<and> type_ok d \<and> image_path_ok d \<and> page_content d \<noteq> [])
       (passed_documents empty_db
          (snd (image_db_insetter list_store empty_db [''a chart''] ''out/r_2_0.png''
                  ''data/r.pdf'' 2)))"
  using insetter_documents_satisfy_invariant
          [where impl = list_store and vdb = empty_db and texts = "[''alpha'', ''beta'']"
             and pdf_name = "''data/r.pdf''" and page_no = 2 and summaries = "[''a chart'']"
             and image_path = "''out/r_2_0.png''"]
  by (simp add: text_db_insetter_passed image_db_insetter_passed list_all_iff)


subsection \<open>Failures of the store\<close>

text \<open>
  C8, as the spec states it, asks that the wrapping error tells text insertion from image
  insertion. Both insetters raise the same exception with the same message for the same
  failure of the store.
\<close>

theorem insetters_raise_the_same_error:
  "fst (text_db_insetter (failing_store (OSError ''disk full'')) empty_db [''alpha'']
          ''r.pdf'' 1)
     = Some (Exception
         ''An error occurred while adding documents to the vector database: disk full'')
   \<and> fst (image_db_insetter (failing_store (OSError ''disk full'')) empty_db [''alpha'']
          ''out/r_1_0.png'' ''r.pdf'' 1)
     = Some (Exception
         ''An error occurred while adding documents to the vector database: disk full'')"
  by (simp add: text_db_insetter_def image_db_insetter_def add_documents_def
        failing_store_def add_error_message_def Let_def)

text \<open>
  C8, amended. For every failure raised by the store's \<^verbatim>\<open>add_documents\<close>, each
  insetter raises an \<open>Exception\<close> whose message is the fixed text
  \<open>An error occurred while adding documents to the vector database: \<close> followed by the
  text of the underlying cause; the message is the same for text and image insertion.
\<close>

theorem insetters_wrap_store_failure:
  "(texts \<noteq> [] \<and> 1 \<le> page_no
      \<and> fst (impl (map (text_document pdf_name page_no) texts) (db_state vdb)) = Some e
    \<longrightarrow> fst (text_db_insetter impl vdb texts pdf_name page_no)
          = Some (Exception
              (''An error occurred while adding documents to the vector database: ''
                 @ str_exc e)))
   \<and> (summaries \<noteq> [] \<and> 1 \<le> page_no
      \<and> fst (impl (map (image_document image_path pdf_name page_no) summaries) (db_state vdb))
          = Some e
    \<longrightarrow> fst (image_db_insetter impl vdb summaries image_path pdf_name page_no)
          = Some (Exception
              (''An error occurred while adding documents to the vector database: ''
                 @ str_exc e)))"
  by (simp add: text_db_insetter_valid_fst image_db_insetter_valid_fst add_error_message_def)

theorem insetters_wrap_store_failure_witness:
  "fst (text_db_insetter (failing_store (ValueError ''bad embedding'')) empty_db
          [''alpha''] ''r.pdf'' 1)
     = Some (Exception
         ''An error occurred while adding documents to the vector database: bad embedding'')
   \<and> fst (image_db_insetter (failing_store (ValueError ''bad embedding'')) empty_db
          [''a chart''] ''out/r_1_0.png'' ''r.pdf'' 1)
     = Some (Exception
         ''An error occurred while adding documents to the vector database: bad embedding'')"
  using insetters_wrap_store_failure
          [where impl = "failing_store (ValueError ''bad embedding'')" and vdb = empty_db
             and texts = "[''alpha'']" and pdf_name = "''r.pdf''" and page_no = 1
             and summaries = "[''a chart'']" and image_path = "''out/r_1_0.png''"
             and e = "ValueError ''bad embedding''"]
  by (simp add: failing_store_def)



section \<open>Properties of process\_all\_files\<close>

lemma endswith_iff: "endswith s x = (\<exists>p. s = p @ x)"
proof
  assume "endswith s x"
  then have "s = take (length s - length x) s @ x"
    by (metis append_take_drop_id endswith_def)
  then show "\<exists>p. s = p @ x" ..
next
  assume "\<exists>p. s = p @ x"
  then show "endswith s x" by (auto simp: endswith_def)
qed


lemma loop_body_failure:
  assumes "try_block cfg ex (os_path_join data_folder filename) output_folder filename w
             = (evs, Some e, w')"
  shows "loop_body cfg ex data_folder output_folder filename w =
           (evs @ [LogError (''Error processing file '' @ filename @ '': '' @ str_exc e),
                   Print (''Error processing file '' @ filename @ '': '' @ str_exc e)],
            None, w')"
  using assms by (simp add: loop_body_def)















lemmas run_simps =
  process_all_files_def os_path_exists_def lookup_path_def resolve_def
  extracted_images_foldername_def os_path_join_def os_makedirs_def os_listdir_def
  loop_body_def try_block_def run_extractor_def info_def lower_def lower_char_def
  endswith_def sample_config_def bare_config_def blank_name_config_def
  sample_extractors_def index_one_chunk_def cannot_open_def text_db_insetter_def
  build_documents_def add_documents_def list_store_def empty_db_def text_document_def
  os_path_basename_def empty_folder_def odd_file_folder_def mixed_folder_def Let_def


subsection \<open>A missing input folder\<close>

text \<open>
  C7. If the input directory does not exist, \<open>process_all_files\<close> reports it, as an
  error line of the log and a printed line that both name the folder, and returns without
  raising; no file is processed, no output directory is created and nothing is inserted
  into the store: the world is returned as it was given, whatever the extractors and the
  configuration are.
\<close>

theorem missing_folder_is_reported:
  assumes "\<not> os_path_exists (fs w) data_folder"
  shows "process_all_files cfg ex data_folder w =
           ([LogError (''The specified data folder does not exist: '' @ data_folder),
             Print (''Error: The specified data folder does not exist: '' @ data_folder)],
            None, w)"
  using assms by (simp add: process_all_files_def)

theorem missing_folder_is_reported_witness:
  "os_path_exists (fs mixed_folder) ''nowhere'' = False
   \<and> process_all_files sample_config sample_extractors ''nowhere'' mixed_folder =
       ([LogError ''The specified data folder does not exist: nowhere'',
         Print ''Error: The specified data folder does not exist: nowhere''],
        None, mixed_folder)"
proof -
  have missing: "\<not> os_path_exists (fs mixed_folder) ''nowhere''"
    by (simp add: os_path_exists_def lookup_path_def resolve_def mixed_folder_def)
  from missing missing_folder_is_reported [OF missing, of sample_config sample_extractors]
  show ?thesis by simp
qed


subsection \<open>Failures of single files\<close>




subsection \<open>Classification by extension\<close>

lemma try_block_classifies:
  assumes "cfg ''settings'' = Some settings"
    and "settings ''image_directory_name'' = Some name"
  shows "try_block cfg ex file_path output_folder filename w =
           (if endswith (lower filename) ''.pdf'' then
              run_extractor ''PDF'' filename (process_pdf ex file_path output_folder) w
            else if endswith (lower filename) ''.txt'' then
              run_extractor ''TXT'' filename (process_text ex file_path) w
            else if endswith (lower filename) ''.docx'' then
              run_extractor ''Word'' filename (process_word_text ex file_path) w
            else if filename = name then ([], None, w)
            else ([LogWarning (''Unsupported file type: '' @ filename),
                   Print (''Warning: Unsupported file type: '' @ filename)], None, w))"
  using assms by (simp add: try_block_def)

lemma loop_body_without_setting:
  assumes "supported_kind filename = None"
    and "cfg ''settings'' = Some settings"
    and "settings ''image_directory_name'' = None"
  shows "loop_body cfg ex data_folder output_folder filename w =
           ([LogError (''Error processing file '' @ filename @ '': ''
                         @ str_exc (KeyError ''image_directory_name'')),
             Print (''Error processing file '' @ filename @ '': ''
                      @ str_exc (KeyError ''image_directory_name''))],
            None, w)"
proof -
  from assms(1) have "\<not> endswith (lower filename) ''.pdf''"
    and "\<not> endswith (lower filename) ''.txt''"
    and "\<not> endswith (lower filename) ''.docx''"
    by (simp_all add: supported_kind_def split: if_splits)
  with assms(2,3)
  have "try_block cfg ex (os_path_join data_folder filename) output_folder filename w
          = ([], Some (KeyError ''image_directory_name''), w)"
    by (simp add: try_block_def)
  from loop_body_failure [OF this] show ?thesis by simp
qed

text \<open>
  C5. The three extensions are tested on the lower-cased name and dispatched as the claim
  says, and a name with none of them is compared with the setting
  \<^verbatim>\<open>config["settings"]["image_directory_name"]\<close> (lemma \<open>try_block_classifies\<close>).
  But the name of the image directory is computed in line 28 with a default for a missing
  or empty setting, and line 65 reads the setting without it. With no such setting every
  unsupported name, and the image directory \<^verbatim>\<open>extracted_images\<close> itself, raises a
  \<^verbatim>\<open>KeyError\<close> that is logged as an error of that file, not as the warning (lemma
  \<open>loop_body_without_setting\<close>); with an empty setting the image directory is reported
  as an unsupported file.
\<close>

theorem unsupported_file_without_setting:
  "process_all_files bare_config sample_extractors ''data'' odd_file_folder =
     ([LogError (''Error processing file notes.xyz: ''
                   @ str_exc (KeyError ''image_directory_name'')),
       Print (''Error processing file notes.xyz: ''
                @ str_exc (KeyError ''image_directory_name'')),
       LogError (''Error processing file extracted_images: ''
                   @ str_exc (KeyError ''image_directory_name'')),
       Print (''Error processing file extracted_images: ''
                @ str_exc (KeyError ''image_directory_name'')),
       LogInfo ''All files have been processed.'', Print ''All files have been processed.''],
      None,
      odd_file_folder\<lparr>fs := fs odd_file_folder @ [([''data'', ''extracted_images''], Dir)]\<rparr>)
   \<and> process_all_files blank_name_config sample_extractors ''data'' odd_file_folder =
     ([LogWarning ''Unsupported file type: notes.xyz'',
       Print ''Warning: Unsupported file type: notes.xyz'',
       LogWarning ''Unsupported file type: extracted_images'',
       Print ''Warning: Unsupported file type: extracted_images'',
       LogInfo ''All files have been processed.'', Print ''All files have been processed.''],
      None,
      odd_file_folder\<lparr>fs := fs odd_file_folder @ [([''data'', ''extracted_images''], Dir)]\<rparr>)"
  by (simp add: run_simps)


subsection \<open>An empty input folder\<close>

lemma empty_listing_branch:
  assumes "os_path_exists (fs w) data_folder"
    and "extracted_images_foldername cfg = Inr name"
    and "os_makedirs (fs w) (os_path_join data_folder name) = (None, files')"
    and "os_listdir files' data_folder = Inr []"
  shows "process_all_files cfg ex data_folder w =
           ([LogWarning ''No files found in the specified data folder.'',
             Print ''Warning: No files found in the specified data folder.''],
            None, w\<lparr>fs := files'\<rparr>)"
  using assms by (simp add: process_all_files_def)

lemma lookup_path_append_new:
  assumes "lookup_path files p = None"
  shows "lookup_path (files @ [(p, Dir)]) q = (if q = p then Some Dir else lookup_path files q)"
  using assms by (auto simp: lookup_path_def map_add_def split: option.splits if_splits)

lemma mkdirs_step:
  assumes "mkdirs files pre (c # cs) = (None, files')"
  shows "\<exists>files2. mkdirs files2 (pre @ [c]) cs = (None, files')
           \<and> lookup_path files2 (pre @ [c]) = Some Dir
           \<and> (\<forall>q. lookup_path files q = Some Dir \<longrightarrow> lookup_path files2 q = Some Dir)"
proof (cases "lookup_path files (pre @ [c])")
  case None
  with assms have "mkdirs (files @ [(pre @ [c], Dir)]) (pre @ [c]) cs = (None, files')"
    by simp
  moreover from None have "lookup_path (files @ [(pre @ [c], Dir)]) (pre @ [c]) = Some Dir"
    by (simp add: lookup_path_append_new)
  moreover from None
  have "\<forall>q. lookup_path files q = Some Dir
           \<longrightarrow> lookup_path (files @ [(pre @ [c], Dir)]) q = Some Dir"
    by (simp add: lookup_path_append_new)
  ultimately show ?thesis by blast
next
  case (Some k)
  with assms have "k = Dir" by (cases k) simp_all
  with Some assms have "mkdirs files (pre @ [c]) cs = (None, files')" by simp
  with Some \<open>k = Dir\<close> show ?thesis by blast
qed

lemma mkdirs_keeps_dirs:
  assumes "mkdirs files pre cs = (None, files')" and "lookup_path files q = Some Dir"
  shows "lookup_path files' q = Some Dir"
  using assms
proof (induction cs arbitrary: files pre)
  case Nil
  then show ?case by simp
next
  case (Cons c cs)
  from mkdirs_step [OF Cons.prems(1)] obtain files2 where
    "mkdirs files2 (pre @ [c]) cs = (None, files')"
    and "\<forall>q. lookup_path files q = Some Dir \<longrightarrow> lookup_path files2 q = Some Dir"
    by blast
  with Cons.prems(2) Cons.IH show ?case by blast
qed

lemma mkdirs_prefixes:
  assumes "mkdirs files pre (xs @ ys) = (None, files')" and "xs \<noteq> []"
  shows "lookup_path files' (pre @ xs) = Some Dir"
  using assms
proof (induction xs arbitrary: files pre)
  case Nil
  then show ?case by simp
next
  case (Cons x xs)
  from Cons.prems(1) have "mkdirs files pre (x # (xs @ ys)) = (None, files')" by simp
  from mkdirs_step [OF this] obtain files2 where
    rest: "mkdirs files2 (pre @ [x]) (xs @ ys) = (None, files')"
    and made: "lookup_path files2 (pre @ [x]) = Some Dir"
    by blast
  show ?case
  proof (cases "xs = []")
    case True
    with rest made show ?thesis by (simp add: mkdirs_keeps_dirs)
  next
    case False
    with rest Cons.IH [of files2 "pre @ [x]"] show ?thesis by simp
  qed
qed

lemma image_directory_is_listed:
  assumes "resolve (os_path_join data_folder name) = resolve data_folder @ [n]"
    and "os_makedirs files (os_path_join data_folder name) = (None, files')"
    and "data_folder \<noteq> []"
  shows "\<exists>names. os_listdir files' data_folder = Inr names \<and> n \<in> set names"
proof -
  let ?d = "resolve data_folder"
  from assms have made: "mkdirs files [] (?d @ [n]) = (None, files')"
    by (simp add: os_makedirs_def split: if_splits)
  have folder: "lookup_path files' ?d = Some Dir"
  proof (cases "?d = []")
    case True
    then show ?thesis by (simp add: lookup_path_def)
  next
    case False
    with mkdirs_prefixes [OF made False] show ?thesis by simp
  qed
  from made have "mkdirs files [] ((?d @ [n]) @ []) = (None, files')" by simp
  then have "lookup_path files' ([] @ (?d @ [n])) = Some Dir"
    by (rule mkdirs_prefixes) simp
  then have "map_of files' (?d @ [n]) = Some Dir" by (simp add: lookup_path_def)
  then have "(?d @ [n], Dir) \<in> set files'" by (rule map_of_SomeD)
  then have "(?d @ [n], Dir)
      \<in> set (filter (\<lambda>e. fst e \<noteq> [] \<and> butlast (fst e) = ?d) files')"
    by simp
  then have "(\<lambda>e. last (fst e)) (?d @ [n], Dir)
      \<in> (\<lambda>e. last (fst e)) ` set (filter (\<lambda>e. fst e \<noteq> [] \<and> butlast (fst e) = ?d) files')"
    by (rule imageI)
  then have "n \<in> set (map (\<lambda>e. last (fst e))
               (filter (\<lambda>e. fst e \<noteq> [] \<and> butlast (fst e) = ?d) files'))"
    by simp
  with folder assms(3) show ?thesis by (simp add: os_listdir_def)
qed

lemma for_each_events_from:
  assumes "ev \<in> set (fst (for_each body xs w))"
  shows "\<exists>x w'. ev \<in> set (fst (body x w'))"
  using assms
proof (induction xs arbitrary: w)
  case Nil
  then show ?case by simp
next
  case (Cons x xs)
  obtain evs r w' where b: "body x w = (evs, r, w')" by (cases "body x w") auto
  show ?case
  proof (cases r)
    case (Some e)
    with b Cons.prems have "ev \<in> set (fst (body x w))" by simp
    then show ?thesis by blast
  next
    case None
    obtain evs' r' w'' where rest: "for_each body xs w' = (evs', r', w'')"
      by (cases "for_each body xs w'") auto
    with b None Cons.prems have "ev \<in> set evs \<or> ev \<in> set evs'" by simp
    then show ?thesis
    proof
      assume "ev \<in> set evs"
      with b have "ev \<in> set (fst (body x w))" by simp
      then show ?thesis by blast
    next
      assume "ev \<in> set evs'"
      with rest have "ev \<in> set (fst (for_each body xs w'))" by simp
      then show ?thesis by (rule Cons.IH)
    qed
  qed
qed

lemma run_extractor_never_warns:
  "LogWarning m \<notin> set (fst (run_extractor kind filename call w))"
  by (simp add: run_extractor_def info_def split: prod.splits option.splits)

lemma try_block_no_empty_warning:
  "LogWarning ''No files found in the specified data folder.''
     \<notin> set (fst (try_block cfg ex file_path output_folder filename w))"
  by (simp add: try_block_def run_extractor_never_warns split: option.splits)

lemma loop_body_no_empty_warning:
  "LogWarning ''No files found in the specified data folder.''
     \<notin> set (fst (loop_body cfg ex data_folder output_folder filename w))"
proof -
  obtain evs r w' where
    t: "try_block cfg ex (os_path_join data_folder filename) output_folder filename w
          = (evs, r, w')"
    by (cases "try_block cfg ex (os_path_join data_folder filename) output_folder filename w")
       auto
  with try_block_no_empty_warning
         [of cfg ex "os_path_join data_folder filename" output_folder filename w]
  have "LogWarning ''No files found in the specified data folder.'' \<notin> set evs" by simp
  with t show ?thesis by (cases r) (simp_all add: loop_body_def)
qed

lemma empty_listing_branch_not_taken:
  assumes "extracted_images_foldername cfg = Inr name"
    and "resolve (os_path_join data_folder name) = resolve data_folder @ [n]"
  shows "LogWarning ''No files found in the specified data folder.''
           \<notin> set (fst (process_all_files cfg ex data_folder w))"
proof (cases "os_path_exists (fs w) data_folder")
  case False
  then show ?thesis by (simp add: process_all_files_def)
next
  case True
  obtain r files' where m: "os_makedirs (fs w) (os_path_join data_folder name) = (r, files')"
    by (cases "os_makedirs (fs w) (os_path_join data_folder name)") auto
  show ?thesis
  proof (cases r)
    case (Some e)
    with m True assms show ?thesis by (simp add: process_all_files_def)
  next
    case None
    with m have made: "os_makedirs (fs w) (os_path_join data_folder name) = (None, files')"
      by simp
    from True have "data_folder \<noteq> []" by (simp add: os_path_exists_def)
    from image_directory_is_listed [OF assms(2) made this] obtain names where
      listing: "os_listdir files' data_folder = Inr names" and "n \<in> set names"
      by blast
    then have nonempty: "names \<noteq> []" by auto
    let ?run = "for_each (loop_body cfg ex data_folder (os_path_join data_folder name)) names
                  (w\<lparr>fs := files'\<rparr>)"
    obtain evs r' w' where run: "?run = (evs, r', w')" by (cases ?run) auto
    have "LogWarning ''No files found in the specified data folder.'' \<notin> set (fst ?run)"
      using for_each_events_from loop_body_no_empty_warning by fast
    with run have "LogWarning ''No files found in the specified data folder.'' \<notin> set evs"
      by simp
    with run True assms(1) made listing nonempty show ?thesis
      by (cases r') (simp_all add: process_all_files_def info_def)
  qed
qed

text \<open>
  C6. The branch for an empty listing warns and returns, with the store untouched (lemma
  \<open>empty_listing_branch\<close>). But the listing is taken in line 32, after line 30 has
  created the image directory inside the input folder: whenever that directory is a direct
  entry of the input folder the listing holds it and the warning is never emitted (lemma
  \<open>empty_listing_branch_not_taken\<close>). On an existing, empty folder the run ends with
  the line that all files have been processed; nothing is inserted.
\<close>

theorem empty_folder_gets_no_warning:
  "os_listdir (fs empty_folder) ''data'' = Inr []
   \<and> process_all_files sample_config sample_extractors ''data'' empty_folder =
       ([LogInfo ''All files have been processed.'', Print ''All files have been processed.''],
        None,
        empty_folder\<lparr>fs := [([''data''], Dir), ([''data'', ''extracted_images''], Dir)]\<rparr>)"
  by (simp add: run_simps)

end
